theory Spec2Isabelle
  imports Complex_Main
begin

section \<open>Values, exceptions and replies\<close>

text \<open>
  The backend is a Flask application (\<^verbatim>\<open>src/app.py\<close>). Every endpoint is embedded as
  a function from the request and the state of the world (the four database tables, the
  files on disk, the mails handed to the SMTP relay) to a reply and the new world.
  What the process cannot decide itself is a parameter: the clock, the random generator,
  the JWT library (for the configured secret), the payment gateway's answer, whether the
  database accepts connections and whether the SMTP relay accepts the mail.
  Floating-point seconds are modelled as exact reals.
\<close>

datatype json =
    JNull
  | JBool bool
  | JInt int
  | JStr string
  | JArr "json list"
  | JObj "(string \<times> json) list"

text \<open>Python's truth value of a decoded JSON value (\<^verbatim>\<open>not x\<close> is its negation).\<close>

fun truthy :: "json \<Rightarrow> bool" where
  "truthy JNull = False"
| "truthy (JBool b) = b"
| "truthy (JInt n) = (n \<noteq> 0)"
| "truthy (JStr s) = (s \<noteq> [])"
| "truthy (JArr xs) = (xs \<noteq> [])"
| "truthy (JObj kvs) = (kvs \<noteq> [])"

datatype exn =
    IndexError
  | KeyError string
  | AttributeError
  | TypeError
  | ValueError
  | ProgrammingError
  | UnboundLocalError
  | OSError string
  | NotFound
  | SMTPException

text \<open>\<^verbatim>\<open>str(e)\<close>: only its dependence on the exception matters here.\<close>

fun str_exn :: "exn \<Rightarrow> string" where
  "str_exn IndexError = ''list index out of range''"
| "str_exn (KeyError k) = k"
| "str_exn AttributeError = '''NoneType' object has no attribute''"
| "str_exn TypeError = ''argument is not iterable''"
| "str_exn ValueError = ''could not convert string to float''"
| "str_exn ProgrammingError = ''Failed processing format-parameters''"
| "str_exn UnboundLocalError = ''local variable referenced before assignment''"
| "str_exn (OSError m) = m"
| "str_exn NotFound = ''404 Not Found''"
| "str_exn SMTPException = ''SMTP error''"

text \<open>
  A reply is a JSON body with a status code (\<^verbatim>\<open>jsonify(...), code\<close>), a file streamed
  by \<^verbatim>\<open>send_from_directory(directory, name)\<close>, or an exception that leaves the view
  function uncaught (Flask answers it with a 500 page of its own).
\<close>

datatype reply =
    Resp json nat
  | SendFile string string
  | Uncaught exn

fun status_code :: "reply \<Rightarrow> nat" where
  "status_code (Resp body code) = code"
| "status_code (SendFile d n) = 200"
| "status_code (Uncaught e) = 500"

text \<open>\<^verbatim>\<open>d.get(k)\<close> on a decoded JSON object: \<^verbatim>\<open>None\<close> is \<open>JNull\<close>.\<close>

definition dict_get :: "(string \<times> json) list \<Rightarrow> string \<Rightarrow> json" where
  "dict_get d k = (case map_of d k of None \<Rightarrow> JNull | Some v \<Rightarrow> v)"

definition dict_get_default :: "(string \<times> json) list \<Rightarrow> string \<Rightarrow> json \<Rightarrow> json" where
  "dict_get_default d k dflt = (case map_of d k of None \<Rightarrow> dflt | Some v \<Rightarrow> v)"

text \<open>\<^verbatim>\<open>x.get(k, {})\<close> where \<^verbatim>\<open>x\<close> is any JSON value: only objects have \<^verbatim>\<open>get\<close>.\<close>

fun json_get_obj :: "json \<Rightarrow> string \<Rightarrow> exn + json" where
  "json_get_obj (JObj d) k = Inr (dict_get_default d k (JObj []))"
| "json_get_obj v k = Inl AttributeError"

fun json_get :: "json \<Rightarrow> string \<Rightarrow> exn + json" where
  "json_get (JObj d) k = Inr (dict_get d k)"
| "json_get v k = Inl AttributeError"

text \<open>\<^verbatim>\<open>s.split(" ")\<close>: the pieces between single spaces, empty pieces kept.\<close>

fun split_on :: "char \<Rightarrow> string \<Rightarrow> string list" where
  "split_on c [] = [[]]"
| "split_on c (x # xs) =
     (if x = c then [] # split_on c xs
      else (case split_on c xs of
              [] \<Rightarrow> [[x]]
            | w # ws \<Rightarrow> (x # w) # ws))"

text \<open>\<^verbatim>\<open>xs[i]\<close> for a non-negative index: \<open>IndexError\<close> out of range.\<close>

definition py_index :: "'a list \<Rightarrow> nat \<Rightarrow> exn + 'a" where
  "py_index xs i = (if i < length xs then Inr (xs ! i) else Inl IndexError)"

text \<open>\<^verbatim>\<open>str(n)\<close> of a non-negative integer.\<close>

definition digit_char :: "nat \<Rightarrow> char" where
  "digit_char d = ''0123456789'' ! d"

fun str_nat :: "nat \<Rightarrow> string" where
  "str_nat n = (if n < 10 then [digit_char n] else str_nat (n div 10) @ [digit_char (n mod 10)])"

text \<open>\<^verbatim>\<open>os.path.join(a, b)\<close> for a relative \<^verbatim>\<open>b\<close>.\<close>

definition path_join :: "string \<Rightarrow> string \<Rightarrow> string" where
  "path_join a b = a @ ''/'' @ b"

section \<open>The data model\<close>

text \<open>Dates are day numbers, instants are seconds; a day has 86400 seconds.\<close>

type_synonym date = int
type_synonym instant = int

definition date_of :: "instant \<Rightarrow> date" where
  "date_of t = t div 86400"

definition plus_days :: "instant \<Rightarrow> int \<Rightarrow> instant" where
  "plus_days t d = t + d * 86400"

record user =
  u_id :: nat
  u_email :: string
  u_password :: string
  u_name :: string
  u_subscription :: string
  u_subscription_expiry :: "date option"
  u_auth_key :: "string option"
  u_reset_token :: "string option"
  u_reset_token_expiry :: "instant option"

record video =
  v_id :: nat
  v_user_id :: nat
  v_filename :: string
  v_duration :: real
  v_created_at :: instant

record payment_order =
  po_order_id :: string
  po_user_id :: nat
  po_amount :: json
  po_subscription_type :: string
  po_duration_days :: int
  po_status :: string
  po_created_at :: instant
  po_updated_at :: "instant option"
  po_payment_response :: "json option"

record payment =
  p_order_id :: string
  p_cf_order_id :: json
  p_user_id :: nat
  p_amount :: json
  p_payment_status :: json
  p_payment_method :: json
  p_transaction_id :: json
  p_payment_date :: instant

text \<open>
  A directory entry. \<open>f_locked\<close> says that \<^verbatim>\<open>os.unlink\<close>/\<^verbatim>\<open>os.remove\<close> on it raises
  \<open>OSError\<close>; \<open>f_length\<close> is the playing time of a media file in seconds.
\<close>

record fentry =
  f_dir :: string
  f_name :: string
  f_isfile :: bool
  f_locked :: bool
  f_length :: real

record email_message =
  m_to :: string
  m_subject :: string
  m_body :: string

record world =
  users :: "user list"
  videos :: "video list"
  payment_orders :: "payment_order list"
  payments :: "payment list"
  files :: "fentry list"
  outbox :: "email_message list"

text \<open>The configuration read from the environment at start-up.\<close>

record config =
  MAX_VIDEOS_PER_USER :: int
  OUTPUT_BASE_FOLDER :: string
  IMAGE_FOLDER :: string
  VOICE_FOLDER :: string
  BACKGROUND_FOLDER :: string
  JWT_EXPIRATION :: int
  RESET_TOKEN_EXPIRY_HOURS :: int
  frontend_url :: string

text \<open>
  What one request sees of its surroundings: the clock, whether
  \<^verbatim>\<open>get_db_connection\<close> obtains a connection, whether the SMTP relay accepts a mail,
  the successive values of \<^verbatim>\<open>random.random()\<close>, the permutation \<^verbatim>\<open>random.shuffle\<close>
  applies, the four digits \<^verbatim>\<open>random.choices\<close> draws and the formatted time stamp,
  the calendar rendering \<^verbatim>\<open>str(d)\<close> of a date, the library function
  \<^verbatim>\<open>secure_filename\<close>, and the JWT library with the configured secret.
\<close>

datatype jwt_result =
    InvalidTokenError
  | ExpiredSignatureError
  | Payload "nat option"

record env =
  now :: instant
  db_up :: bool
  smtp_up :: bool
  random_values :: "nat \<Rightarrow> real"
  shuffle :: "string list \<Rightarrow> string list"
  random_digits :: string
  strftime_now :: string
  isoformat_date :: "date \<Rightarrow> string"
  secure_filename :: "string \<Rightarrow> string"
  jwt_decode :: "string \<Rightarrow> jwt_result"
  jwt_encode :: "nat \<Rightarrow> instant \<Rightarrow> string"

text \<open>The payment gateway's answer to \<^verbatim>\<open>GET /orders/{order_id}\<close>.\<close>

record gateway_response =
  gw_status_code :: nat
  gw_json :: "(string \<times> json) list"


section \<open>Database statements and string formatting\<close>

text \<open>
  \<^verbatim>\<open>column = %s\<close> for a text column and a bound parameter taken from decoded JSON.
  The application stores no identifier or file name that is a numeric literal, so a
  number or a boolean matches no row; a list or an object is refused by the driver
  (\<open>sql_param_ok\<close>).
\<close>

fun sql_text_eq :: "string \<Rightarrow> json \<Rightarrow> bool" where
  "sql_text_eq col (JStr s) = (col = s)"
| "sql_text_eq col p = False"

fun sql_param_ok :: "json \<Rightarrow> bool" where
  "sql_param_ok (JArr xs) = False"
| "sql_param_ok (JObj d) = False"
| "sql_param_ok p = True"

text \<open>The text an f-string puts for a value.\<close>

definition str_int :: "int \<Rightarrow> string" where
  "str_int i = (if i < 0 then CHR ''-'' # str_nat (nat (- i)) else str_nat (nat i))"

fun py_str :: "json \<Rightarrow> string" where
  "py_str (JStr s) = s"
| "py_str JNull = ''None''"
| "py_str (JBool b) = (if b then ''True'' else ''False'')"
| "py_str (JInt i) = str_int i"
| "py_str (JArr xs) = ''[...]''"
| "py_str (JObj d) = ''{...}''"

text \<open>\<^verbatim>\<open>k in x\<close> for a decoded JSON value \<^verbatim>\<open>x\<close> and a string \<^verbatim>\<open>k\<close>.\<close>

fun is_prefix :: "string \<Rightarrow> string \<Rightarrow> bool" where
  "is_prefix [] ys = True"
| "is_prefix (x # xs) [] = False"
| "is_prefix (x # xs) (y # ys) = (x = y \<and> is_prefix xs ys)"

fun contains_str :: "string \<Rightarrow> string \<Rightarrow> bool" where
  "contains_str s [] = (s = [])"
| "contains_str s (y # ys) = (is_prefix s (y # ys) \<or> contains_str s ys)"

fun py_in :: "string \<Rightarrow> json \<Rightarrow> exn + bool" where
  "py_in k (JObj d) = Inr (map_of d k \<noteq> None)"
| "py_in k (JStr s) = Inr (contains_str k s)"
| "py_in k (JArr xs) = Inr (List.member xs (JStr k))"
| "py_in k v = Inl TypeError"

section \<open>Authentication decorators\<close>

text \<open>
  Lines 87--89 of both decorators: the second piece of the \<^verbatim>\<open>Authorization\<close> header.
  The indexing stands outside the \<^verbatim>\<open>try\<close> block.
\<close>

definition authorization_token :: "string option \<Rightarrow> exn + string option" where
  "authorization_token authorization =
     (case authorization of
        None \<Rightarrow> Inr None
      | Some h \<Rightarrow>
          (case py_index (split_on CHR '' '' h) 1 of
             Inl ex \<Rightarrow> Inl ex
           | Inr token \<Rightarrow> Inr (Some token)))"

definition token_missing :: reply where
  "token_missing = Resp (JObj [(''message'', JStr ''Token is missing'')]) 401"

definition invalid_token :: reply where
  "invalid_token = Resp (JObj [(''message'', JStr ''Invalid token'')]) 401"

text \<open>
  \<^verbatim>\<open>token_required\<close>, up to the call of the wrapped view: \<open>Inl r\<close> is the reply the
  decorator gives itself, \<open>Inr current_user\<close> means that it goes on to
  \<^verbatim>\<open>f(current_user, ...)\<close>.
\<close>

definition token_required :: "env \<Rightarrow> world \<Rightarrow> string option \<Rightarrow> reply + user" where
  "token_required e w authorization =
     (case authorization_token authorization of
        Inl ex \<Rightarrow> Inl (Uncaught ex)
      | Inr None \<Rightarrow> Inl token_missing
      | Inr (Some token) \<Rightarrow>
          (if token = [] then Inl token_missing
           else
             (case jwt_decode e token of
                Payload (Some user_id) \<Rightarrow>
                  (if \<not> db_up e then Inl invalid_token
                   else
                     (case find (\<lambda>u. u_id u = user_id) (users w) of
                        None \<Rightarrow> Inl invalid_token
                      | Some current_user \<Rightarrow> Inr current_user))
              | Payload None \<Rightarrow> Inl invalid_token
              | ExpiredSignatureError \<Rightarrow> Inl invalid_token
              | InvalidTokenError \<Rightarrow> Inl invalid_token)))"

definition subscription_expired_reply :: "env \<Rightarrow> date \<Rightarrow> reply" where
  "subscription_expired_reply e d =
     Resp (JObj [(''message'', JStr ''Subscription expired''),
                 (''subscription_expired'', JBool True),
                 (''subscription_expiry'', JStr (isoformat_date e d))]) 403"

definition subscription_required :: "env \<Rightarrow> world \<Rightarrow> string option \<Rightarrow> reply + user" where
  "subscription_required e w authorization =
     (case authorization_token authorization of
        Inl ex \<Rightarrow> Inl (Uncaught ex)
      | Inr None \<Rightarrow> Inl token_missing
      | Inr (Some token) \<Rightarrow>
          (if token = [] then Inl token_missing
           else
             (case jwt_decode e token of
                Payload (Some user_id) \<Rightarrow>
                  (if \<not> db_up e then Inl invalid_token
                   else
                     (case find (\<lambda>u. u_id u = user_id) (users w) of
                        None \<Rightarrow> Inl invalid_token
                      | Some current_user \<Rightarrow>
                          (case u_subscription_expiry current_user of
                             None \<Rightarrow> Inr current_user
                           | Some expiry_date \<Rightarrow>
                               (if expiry_date < date_of (now e)
                                then Inl (subscription_expired_reply e expiry_date)
                                else Inr current_user))))
              | Payload None \<Rightarrow> Inl invalid_token
              | ExpiredSignatureError \<Rightarrow> Inl invalid_token
              | InvalidTokenError \<Rightarrow> Inl invalid_token)))"

text \<open>A decorated view: the decorator's own reply, or the view called with the user.\<close>

definition decorated ::
  "reply + user \<Rightarrow> (user \<Rightarrow> world \<Rightarrow> reply \<times> world) \<Rightarrow> world \<Rightarrow> reply \<times> world" where
  "decorated auth f w = (case auth of Inl r \<Rightarrow> (r, w) | Inr current_user \<Rightarrow> f current_user w)"

section \<open>Helper functions\<close>

text \<open>
  \<^verbatim>\<open>cursor.fetchone()\<close> is the first matching row (\<open>find\<close>); an \<^verbatim>\<open>UPDATE\<close> maps over
  the table, a \<^verbatim>\<open>DELETE\<close> filters it, an \<^verbatim>\<open>INSERT\<close> appends to it. A helper that
  catches every exception and returns \<^verbatim>\<open>False\<close> does so here when no connection is
  obtained.
\<close>

definition update_subscription_status ::
  "env \<Rightarrow> nat \<Rightarrow> string \<Rightarrow> int \<Rightarrow> world \<Rightarrow> bool \<times> world" where
  "update_subscription_status e user_id subscription_type duration_days w =
     (if \<not> db_up e then (False, w)
      else
        (let new_expiry = plus_days (now e) duration_days in
         (True,
          w\<lparr>users :=
               map (\<lambda>u. if u_id u = user_id
                         then u\<lparr>u_subscription := subscription_type,
                                u_subscription_expiry := Some (date_of new_expiry)\<rparr>
                         else u)
                   (users w)\<rparr>)))"

definition save_payment_record ::
  "env \<Rightarrow> string \<Rightarrow> nat \<Rightarrow> json \<Rightarrow> (string \<times> json) list \<Rightarrow> world \<Rightarrow> bool \<times> world" where
  "save_payment_record e order_id user_id amount payment_details w =
     (if \<not> db_up e then (False, w)
      else
        (True,
         w\<lparr>payments := payments w @
               [\<lparr>p_order_id = order_id,
                 p_cf_order_id = dict_get payment_details ''cf_order_id'',
                 p_user_id = user_id,
                 p_amount = amount,
                 p_payment_status = dict_get payment_details ''order_status'',
                 p_payment_method = dict_get payment_details ''payment_method'',
                 p_transaction_id = dict_get payment_details ''cf_payment_id'',
                 p_payment_date = now e\<rparr>]\<rparr>))"

definition get_user_video_count :: "env \<Rightarrow> world \<Rightarrow> nat \<Rightarrow> int" where
  "get_user_video_count e w user_id =
     (if \<not> db_up e then 0
      else int (length (filter (\<lambda>v. v_user_id v = user_id) (videos w))))"

section \<open>Payment confirmation\<close>

definition opt_json :: "string option \<Rightarrow> json" where
  "opt_json x = (case x of None \<Rightarrow> JNull | Some s \<Rightarrow> JStr s)"

definition error_reply :: "exn \<Rightarrow> nat \<Rightarrow> reply" where
  "error_reply ex code = Resp (JObj [(''error'', JStr (str_exn ex))]) code"

text \<open>
  \<^verbatim>\<open>payment_success\<close> (the view of the polling endpoint). \<open>gw\<close> is what
  \<^verbatim>\<open>requests.get\<close> yields for the order: an exception or the gateway's answer.
\<close>

definition payment_success ::
  "env \<Rightarrow> exn + gateway_response \<Rightarrow> string option \<Rightarrow> user \<Rightarrow> world \<Rightarrow> reply \<times> world" where
  "payment_success e gw order_id current_user w =
     (case gw of
        Inl ex \<Rightarrow> (error_reply ex 500, w)
      | Inr response \<Rightarrow>
          (if gw_status_code response = 200 then
             (let order_data = gw_json response;
                  is_paid = (dict_get order_data ''order_status'' = JStr ''PAID'');
                  ok = Resp (JObj [(''status'', JStr ''success''),
                                   (''order_id'', opt_json order_id),
                                   (''order_status'', dict_get order_data ''order_status''),
                                   (''payment_details'', JObj order_data)]) 200
              in
                if is_paid then
                  (if \<not> db_up e then (error_reply AttributeError 500, w)
                   else
                     (case find (\<lambda>po. Some (po_order_id po) = order_id \<and>
                                        po_user_id po = u_id current_user)
                                (payment_orders w) of
                        None \<Rightarrow> (ok, w)
                      | Some order_details \<Rightarrow>
                          (case update_subscription_status e (u_id current_user)
                                  (po_subscription_type order_details)
                                  (po_duration_days order_details) w of
                             (success, w1) \<Rightarrow>
                               if success then
                                 (let w2 = snd (save_payment_record e (po_order_id order_details)
                                                  (u_id current_user) (po_amount order_details)
                                                  order_data w1)
                                  in (ok,
                                      w2\<lparr>payment_orders :=
                                            map (\<lambda>po. if Some (po_order_id po) = order_id
                                                       then po\<lparr>po_status := ''COMPLETED'',
                                                               po_updated_at := Some (now e)\<rparr>
                                                       else po)
                                                (payment_orders w2)\<rparr>))
                               else (ok, w1))))
                else (ok, w))
           else
             (Resp (JObj [(''status'', JStr ''error''),
                          (''message'', JStr ''Failed to verify payment'')]) 400, w)))"

definition payment_success_endpoint ::
  "env \<Rightarrow> exn + gateway_response \<Rightarrow> string option \<Rightarrow> string option \<Rightarrow> world \<Rightarrow> reply \<times> world" where
  "payment_success_endpoint e gw authorization order_id w =
     decorated (token_required e w authorization) (payment_success e gw order_id) w"

text \<open>
  \<^verbatim>\<open>payment_webhook\<close>; \<open>webhook_data\<close> is the decoded request body. The block under
  \<^verbatim>\<open>if is_paid:\<close> (lines 1417--1500) is \<open>webhook_process\<close>: the status check, the
  look-up of the order, and the three statements committed together.
\<close>

definition already_processed :: reply where
  "already_processed =
     Resp (JObj [(''status'', JStr ''success''),
                 (''message'', JStr ''Payment already processed'')]) 200"

definition webhook_process ::
  "env \<Rightarrow> (string \<times> json) list \<Rightarrow> json \<Rightarrow> world \<Rightarrow> reply \<times> world" where
  "webhook_process e payment_details order_id w =
     (if \<not> db_up e then (error_reply (OSError ''Can't connect to MySQL server'') 500, w)
      else if \<not> sql_param_ok order_id then (error_reply ProgrammingError 500, w)
      else
        (case find (\<lambda>po. sql_text_eq (po_order_id po) order_id) (payment_orders w) of
           None \<Rightarrow> (Resp (JObj [(''error'', JStr ''Order not found'')]) 404, w)
         | Some order_details \<Rightarrow>
             (if po_status order_details = ''COMPLETED'' then (already_processed, w)
              else
                (Resp (JObj [(''status'', JStr ''success''),
                             (''message'', JStr (''Payment successfully processed for order '' @
                                                 py_str order_id)),
                             (''order_status'', dict_get payment_details ''order_status''),
                             (''payment_details'', JObj payment_details)]) 200,
                 w\<lparr>users :=
                      map (\<lambda>u. if u_id u = po_user_id order_details
                                then u\<lparr>u_subscription := po_subscription_type order_details,
                                       u_subscription_expiry :=
                                         Some (date_of (plus_days (now e)
                                                 (po_duration_days order_details)))\<rparr>
                                else u)
                          (users w),
                    payments := payments w @
                      [\<lparr>p_order_id = po_order_id order_details,
                        p_cf_order_id = JNull,
                        p_user_id = po_user_id order_details,
                        p_amount = po_amount order_details,
                        p_payment_status = dict_get payment_details ''order_status'',
                        p_payment_method =
                          dict_get_default payment_details ''payment_method'' (JStr ''unknown''),
                        p_transaction_id =
                          dict_get_default payment_details ''cf_payment_id'' (JStr []),
                        p_payment_date = now e\<rparr>],
                    payment_orders :=
                      map (\<lambda>po. if sql_text_eq (po_order_id po) order_id
                                 then po\<lparr>po_status := ''COMPLETED'',
                                         po_updated_at := Some (now e),
                                         po_payment_response := Some (JObj payment_details)\<rparr>
                                 else po)
                          (payment_orders w)\<rparr>))))"

definition payment_webhook ::
  "env \<Rightarrow> exn + gateway_response \<Rightarrow> json \<Rightarrow> world \<Rightarrow> reply \<times> world" where
  "payment_webhook e gw webhook_data w =
     (let invalid = (Resp (JObj [(''error'', JStr ''Invalid webhook data'')]) 400, w) in
      if \<not> truthy webhook_data then invalid
      else
        (case py_in ''data'' webhook_data of
           Inl ex \<Rightarrow> (error_reply ex 500, w)
         | Inr False \<Rightarrow> invalid
         | Inr True \<Rightarrow>
             (case json_get_obj webhook_data ''data'' of
                Inl ex \<Rightarrow> (error_reply ex 500, w)
              | Inr data \<Rightarrow>
                  (case json_get_obj data ''order'' of
                     Inl ex \<Rightarrow> (error_reply ex 500, w)
                   | Inr order_data \<Rightarrow>
                       (case json_get order_data ''order_id'' of
                          Inl ex \<Rightarrow> (error_reply ex 500, w)
                        | Inr order_id \<Rightarrow>
                            (if \<not> truthy order_id then
                               (Resp (JObj [(''error'', JStr ''Missing order_id'')]) 400, w)
                             else
                               (case gw of
                                  Inl ex \<Rightarrow> (error_reply ex 500, w)
                                | Inr response \<Rightarrow>
                                    (if gw_status_code response \<noteq> 200 then
                                       (Resp (JObj [(''error'',
                                                     JStr ''Failed to verify order status'')]) 400, w)
                                     else
                                       (let payment_details = gw_json response;
                                            is_paid = (dict_get payment_details ''order_status'' =
                                                       JStr ''PAID'')
                                        in
                                          if is_paid then webhook_process e payment_details order_id w
                                          else
                                            (Resp (JObj
                                               [(''status'', JStr ''pending''),
                                                (''message'',
                                                 JStr (''Payment not successful for order '' @
                                                       py_str order_id)),
                                                (''order_status'',
                                                 dict_get payment_details ''order_status'')]) 200,
                                             w))))))))))"

section \<open>Files and the video endpoints\<close>

text \<open>
  \<^verbatim>\<open>clear_folder\<close>: unlink the regular files of the folder in directory order; the first
  \<^verbatim>\<open>os.unlink\<close> that raises ends the loop and the function returns \<^verbatim>\<open>False\<close>, the files
  removed before it stay removed.
\<close>

fun clear_folder :: "string \<Rightarrow> fentry list \<Rightarrow> bool \<times> fentry list" where
  "clear_folder folder_path [] = (True, [])"
| "clear_folder folder_path (en # ens) =
     (if f_dir en = folder_path \<and> f_isfile en then
        (if f_locked en then (False, en # ens) else clear_folder folder_path ens)
      else (case clear_folder folder_path ens of (ok, ens') \<Rightarrow> (ok, en # ens')))"

definition get_user_output_folder :: "config \<Rightarrow> nat \<Rightarrow> string" where
  "get_user_output_folder cfg user_id =
     path_join (OUTPUT_BASE_FOLDER cfg) (''user_'' @ str_nat user_id)"

definition clear_cache_route :: "config \<Rightarrow> env \<Rightarrow> user \<Rightarrow> world \<Rightarrow> reply \<times> world" where
  "clear_cache_route cfg e current_user w =
     (let user_folder = get_user_output_folder cfg (u_id current_user) in
      case clear_folder user_folder (files w) of
        (success, files') \<Rightarrow>
          (let w1 = w\<lparr>files := files'\<rparr> in
           if \<not> db_up e then (error_reply AttributeError 500, w1)
           else
             (let w2 = w1\<lparr>videos := filter (\<lambda>v. v_user_id v \<noteq> u_id current_user) (videos w1)\<rparr>
              in if success
                 then (Resp (JObj [(''message'', JStr ''Cache cleared successfully'')]) 200, w2)
                 else (Resp (JObj [(''error'', JStr ''Failed to clear cache'')]) 500, w2))))"

definition clear_cache_endpoint ::
  "config \<Rightarrow> env \<Rightarrow> string option \<Rightarrow> world \<Rightarrow> reply \<times> world" where
  "clear_cache_endpoint cfg e authorization w =
     decorated (token_required e w authorization) (clear_cache_route cfg e) w"

text \<open>
  \<^verbatim>\<open>delete_video\<close>; \<open>data\<close> is the decoded request body. The \<^verbatim>\<open>finally\<close> clause
  closes \<^verbatim>\<open>cursor\<close>, a local variable that is bound only after the check of the two
  fields: a return or an exception before that point ends in \<open>UnboundLocalError\<close>.
\<close>

definition delete_video :: "config \<Rightarrow> env \<Rightarrow> json \<Rightarrow> user \<Rightarrow> world \<Rightarrow> reply \<times> world" where
  "delete_video cfg e data current_user w =
     (case json_get data ''videoId'' of
        Inl ex \<Rightarrow> (Uncaught UnboundLocalError, w)
      | Inr video_id \<Rightarrow>
          (let filename = dict_get (case data of JObj d \<Rightarrow> d | _ \<Rightarrow> []) ''filename'' in
           if \<not> truthy video_id \<and> \<not> truthy filename then (Uncaught UnboundLocalError, w)
           else if \<not> db_up e then (Uncaught UnboundLocalError, w)
           else
             (let key = (if truthy video_id then video_id else filename) in
              if \<not> sql_param_ok key then (error_reply ProgrammingError 500, w)
              else
                (case find (\<lambda>v. sql_text_eq (v_filename v) key \<and> v_user_id v = u_id current_user)
                           (videos w) of
                   None \<Rightarrow> (Resp (JObj [(''error'', JStr ''Video not found or unauthorized'')]) 404, w)
                 | Some video \<Rightarrow>
                     (let user_folder = get_user_output_folder cfg (u_id current_user) in
                      case find (\<lambda>en. f_dir en = user_folder \<and> f_name en = v_filename video)
                                (files w) of
                        None \<Rightarrow> (Resp (JObj [(''error'', JStr ''Video not found'')]) 404, w)
                      | Some en \<Rightarrow>
                          (if f_locked en \<or> \<not> f_isfile en then
                             (Resp (JObj [(''error'',
                                           JStr (''Failed to delete video: '' @
                                                 str_exn (OSError ''Permission denied'')))]) 500, w)
                           else
                             (Resp (JObj [(''message'', JStr ''Video deleted successfully'')]) 200,
                              w\<lparr>files := filter (\<lambda>en. \<not> (f_dir en = user_folder \<and>
                                                           f_name en = v_filename video)) (files w),
                                videos := filter (\<lambda>v. \<not> sql_text_eq (v_filename v) key)
                                            (videos w)\<rparr>)))))))"

definition delete_video_endpoint ::
  "config \<Rightarrow> env \<Rightarrow> string option \<Rightarrow> json \<Rightarrow> world \<Rightarrow> reply \<times> world" where
  "delete_video_endpoint cfg e authorization data w =
     decorated (token_required e w authorization) (delete_video cfg e data) w"





text \<open>The gateway answered and reports the order as paid.\<close>

definition gateway_paid :: "exn + gateway_response \<Rightarrow> bool" where
  "gateway_paid gw =
     (case gw of
        Inl ex \<Rightarrow> False
      | Inr response \<Rightarrow>
          gw_status_code response = 200 \<and>
          dict_get (gw_json response) ''order_status'' = JStr ''PAID'')"

section \<open>Video generation\<close>

text \<open>
  A form field read with \<^verbatim>\<open>float(request.form.get(name, default))\<close>: absent, a
  number, or text that \<^verbatim>\<open>float\<close> refuses. An uploaded file has a name and, when it
  decodes as audio, a playing time.
\<close>

datatype 'a form_field = Missing | Parsed 'a | Unparsable

record upload =
  up_filename :: string
  up_length :: "real option"

record generate_request =
  minTime :: "real form_field"
  maxTime :: "real form_field"
  imageSelection :: "string option"
  transitionType :: "string option"
  transitionTime :: "real form_field"
  voiceVolume :: "real form_field"
  backgroundVolume :: "real form_field"
  textOverlays :: "string list"
  images :: "upload list option"
  voice :: "upload option"
  backgroundSound :: "upload option"
  host_url :: string

definition form_float :: "real form_field \<Rightarrow> real \<Rightarrow> exn + real" where
  "form_float f dflt =
     (case f of Missing \<Rightarrow> Inr dflt | Parsed r \<Rightarrow> Inr r | Unparsable \<Rightarrow> Inl ValueError)"

record clip =
  c_image :: string
  c_duration :: real
  c_text :: "string option"
  c_start :: real
  c_end :: real
  c_fadein :: "real option"
  c_fadeout :: "real option"

text \<open>
  \<^verbatim>\<open>random.uniform(a, b)\<close> is \<^verbatim>\<open>a + (b - a) * random()\<close>; \<open>u\<close> is the value of
  \<^verbatim>\<open>random()\<close>, which lies in \<open>[0, 1)\<close>.
\<close>

definition get_random_duration :: "real \<Rightarrow> real \<Rightarrow> real \<Rightarrow> real" where
  "get_random_duration min_time max_time u = min_time + (max_time - min_time) * u"

text \<open>
  The \<^verbatim>\<open>while\<close> loop of lines 575--594, with its three variables \<^verbatim>\<open>clips\<close>,
  \<^verbatim>\<open>total_duration\<close> and \<^verbatim>\<open>img_index\<close>. Nothing bounds the number of rounds, so the
  result is optional: \<open>None\<close> is a loop that never ends.
\<close>

partial_function (option) slide_loop ::
  "(nat \<Rightarrow> real) \<Rightarrow> real \<Rightarrow> real \<Rightarrow> string list \<Rightarrow> string list \<Rightarrow> real \<Rightarrow>
   clip list \<Rightarrow> real \<Rightarrow> nat \<Rightarrow> clip list option" where
  "slide_loop rnd min_time max_time image_paths text_overlays voice_duration
              clips total_duration img_index =
     (if total_duration < voice_duration \<and> image_paths \<noteq> [] then
        (let duration = min (get_random_duration min_time max_time (rnd img_index))
                            (voice_duration - total_duration);
             img_path = image_paths ! (img_index mod length image_paths);
             clip = \<lparr>c_image = img_path, c_duration = duration,
                     c_text = (if img_index < length text_overlays \<and>
                                  text_overlays ! img_index \<noteq> []
                               then Some (text_overlays ! img_index) else None),
                     c_start = 0, c_end = duration, c_fadein = None, c_fadeout = None\<rparr>
         in slide_loop rnd min_time max_time image_paths text_overlays voice_duration
              (clips @ [clip]) (total_duration + duration) (img_index + 1))
      else Some clips)"

definition apply_transition_effects :: "clip \<Rightarrow> clip \<Rightarrow> string \<Rightarrow> real \<Rightarrow> clip \<times> clip" where
  "apply_transition_effects clip1 clip2 transition_type duration =
     (if transition_type = ''fade'' then
        (clip1\<lparr>c_fadeout := Some duration\<rparr>, clip2\<lparr>c_fadein := Some duration\<rparr>)
      else if transition_type = ''slide'' then
        (clip1\<lparr>c_start := c_end clip1, c_end := c_end clip1 + c_duration clip1\<rparr>,
         clip2\<lparr>c_start := c_end clip1 + duration,
               c_end := c_end clip1 + duration + c_duration clip2\<rparr>)
      else (clip1, clip2))"

text \<open>The \<^verbatim>\<open>for\<close> loop of lines 598--606 over \<^verbatim>\<open>clips[1:]\<close>; \<open>final_clips\<close> is never empty.\<close>

fun apply_transitions :: "string \<Rightarrow> real \<Rightarrow> clip list \<Rightarrow> clip list \<Rightarrow> clip list" where
  "apply_transitions transition_type transition_time final_clips [] = final_clips"
| "apply_transitions transition_type transition_time final_clips (c # cs) =
     (case apply_transition_effects (last final_clips) c transition_type transition_time of
        (clip1, clip2) \<Rightarrow>
          apply_transitions transition_type transition_time
            (butlast final_clips @ [clip1, clip2]) cs)"

text \<open>
  The video library: \<^verbatim>\<open>concatenate_videoclips(clips, method="compose")\<close> starts each clip
  where the durations of the clips before it end, so the result lasts the sum of the
  durations; setting the audio track does not change it.
\<close>

definition concatenate_videoclips :: "clip list \<Rightarrow> real" where
  "concatenate_videoclips final_clips = sum_list (map c_duration final_clips)"

definition generate_unique_filename :: "env \<Rightarrow> string" where
  "generate_unique_filename e = ''video_'' @ strftime_now e @ ''_'' @ random_digits e @ ''.mp4''"

definition save_video_record :: "env \<Rightarrow> nat \<Rightarrow> string \<Rightarrow> real \<Rightarrow> world \<Rightarrow> bool \<times> world" where
  "save_video_record e user_id filename duration w =
     (if \<not> db_up e then (False, w)
      else
        (True,
         w\<lparr>videos := videos w @
              [\<lparr>v_id = Suc (fold max (map v_id (videos w)) 0), v_user_id = user_id,
                v_filename = filename, v_duration = duration, v_created_at = now e\<rparr>]\<rparr>))"

text \<open>\<^verbatim>\<open>file.save(path)\<close> and \<^verbatim>\<open>write_videofile(path)\<close>: the file replaces one of that name.\<close>

definition save_file :: "string \<Rightarrow> string \<Rightarrow> real \<Rightarrow> fentry list \<Rightarrow> fentry list" where
  "save_file dir name len fs =
     filter (\<lambda>en. \<not> (f_dir en = dir \<and> f_name en = name)) fs @
     [\<lparr>f_dir = dir, f_name = name, f_isfile = True, f_locked = False, f_length = len\<rparr>]"

definition clear_media_folders :: "config \<Rightarrow> fentry list \<Rightarrow> fentry list" where
  "clear_media_folders cfg fs =
     snd (clear_folder (BACKGROUND_FOLDER cfg)
            (snd (clear_folder (VOICE_FOLDER cfg) (snd (clear_folder (IMAGE_FOLDER cfg) fs)))))"

text \<open>
  Lines 560--652 of \<^verbatim>\<open>generate_video\<close>: everything after the uploads are stored.
  \<open>fs\<close> are the files on disk at that point.
\<close>

definition render_video ::
  "config \<Rightarrow> env \<Rightarrow> generate_request \<Rightarrow> user \<Rightarrow> real \<Rightarrow> real \<Rightarrow> string \<Rightarrow> real \<Rightarrow>
   string list \<Rightarrow> upload \<Rightarrow> upload \<Rightarrow> world \<Rightarrow> (reply \<times> world) option" where
  "render_video cfg e req current_user min_time max_time transition_type transition_time
                image_paths voice_file background_sound w =
     (case up_length voice_file of
        None \<Rightarrow> Some (error_reply (OSError ''could not read the audio file'') 500, w)
      | Some voice_duration \<Rightarrow>
          (case up_length background_sound of
             None \<Rightarrow> Some (error_reply (OSError ''could not read the audio file'') 500, w)
           | Some background_duration \<Rightarrow>
               (case slide_loop (random_values e) min_time max_time image_paths
                       (textOverlays req) voice_duration [] 0 0 of
                  None \<Rightarrow> None
                | Some clips \<Rightarrow>
                    (case clips of
                       [] \<Rightarrow> Some (error_reply IndexError 500, w)
                     | c # cs \<Rightarrow>
                         (let final_clips = apply_transitions transition_type transition_time [c] cs;
                              final_video = concatenate_videoclips final_clips;
                              output_filename = generate_unique_filename e;
                              user_folder = get_user_output_folder cfg (u_id current_user);
                              w1 = w\<lparr>files := save_file user_folder output_filename final_video
                                                 (files w)\<rparr>;
                              w2 = snd (save_video_record e (u_id current_user) output_filename
                                          voice_duration w1);
                              w3 = w2\<lparr>files := clear_media_folders cfg (files w2)\<rparr>;
                              new_count = get_user_video_count e w3 (u_id current_user)
                          in Some
                               (Resp (JObj [(''message'', JStr ''Video generated successfully''),
                                            (''videoUrl'',
                                             JStr (host_url req @ ''/video/'' @ output_filename)),
                                            (''filename'', JStr output_filename),
                                            (''videoCount'', JInt new_count),
                                            (''limit'', JInt (MAX_VIDEOS_PER_USER cfg))]) 200,
                                w3))))))"

definition limit_reached :: "config \<Rightarrow> int \<Rightarrow> reply" where
  "limit_reached cfg video_count =
     Resp (JObj [(''error'',
                  JStr (''You have reached the maximum limit of '' @
                        str_int (MAX_VIDEOS_PER_USER cfg) @
                        '' videos. Please delete some videos before generating new ones.'')),
                 (''videoCount'', JInt video_count),
                 (''limit'', JInt (MAX_VIDEOS_PER_USER cfg))]) 403"

definition generate_video ::
  "config \<Rightarrow> env \<Rightarrow> generate_request \<Rightarrow> user \<Rightarrow> world \<Rightarrow> (reply \<times> world) option" where
  "generate_video cfg e req current_user w =
     (let video_count = get_user_video_count e w (u_id current_user) in
      if video_count \<ge> MAX_VIDEOS_PER_USER cfg then Some (limit_reached cfg video_count, w)
      else
        (case form_float (minTime req) 3 of
           Inl ex \<Rightarrow> Some (error_reply ex 500, w)
         | Inr min_time \<Rightarrow>
        (case form_float (maxTime req) 5 of
           Inl ex \<Rightarrow> Some (error_reply ex 500, w)
         | Inr max_time \<Rightarrow>
        (case form_float (transitionTime req) (1 / 2) of
           Inl ex \<Rightarrow> Some (error_reply ex 500, w)
         | Inr transition_time \<Rightarrow>
        (case form_float (voiceVolume req) 1 of
           Inl ex \<Rightarrow> Some (error_reply ex 500, w)
         | Inr voice_volume \<Rightarrow>
        (case form_float (backgroundVolume req) (3 / 10) of
           Inl ex \<Rightarrow> Some (error_reply ex 500, w)
         | Inr background_volume \<Rightarrow>
        (case (images req, voice req, backgroundSound req) of
           (Some imgs, Some voice_file, Some background_sound) \<Rightarrow>
             (let image_selection = (case imageSelection req of None \<Rightarrow> ''ascending'' | Some s \<Rightarrow> s);
                  transition_type = (case transitionType req of None \<Rightarrow> ''fade'' | Some s \<Rightarrow> s);
                  fs0 = clear_media_folders cfg (files w);
                  named = filter (\<lambda>img. up_filename img \<noteq> []) imgs;
                  fs1 = fold (\<lambda>img. save_file (IMAGE_FOLDER cfg)
                                      (secure_filename e (up_filename img)) 0) named fs0;
                  saved = map (\<lambda>img. path_join (IMAGE_FOLDER cfg)
                                       (secure_filename e (up_filename img))) named;
                  image_paths = (if image_selection = ''random'' then shuffle e saved
                                 else if image_selection = ''descending'' then rev saved
                                 else saved);
                  fs2 = save_file (VOICE_FOLDER cfg) (secure_filename e (up_filename voice_file))
                          (case up_length voice_file of None \<Rightarrow> 0 | Some l \<Rightarrow> l) fs1;
                  fs3 = save_file (BACKGROUND_FOLDER cfg)
                          (secure_filename e (up_filename background_sound))
                          (case up_length background_sound of None \<Rightarrow> 0 | Some l \<Rightarrow> l) fs2
              in render_video cfg e req current_user min_time max_time transition_type
                   transition_time image_paths voice_file background_sound (w\<lparr>files := fs3\<rparr>))
         | _ \<Rightarrow> Some (Resp (JObj [(''error'', JStr ''Missing required files'')]) 400, w))))))))"


section \<open>Sample data\<close>

text \<open>Two users, one open order, and the surroundings of a request at day 200.\<close>

definition alice :: user where
  "alice = \<lparr>u_id = 1, u_email = ''alice@example.com'', u_password = ''pw-a'', u_name = ''Alice'',
            u_subscription = ''free'', u_subscription_expiry = Some 100, u_auth_key = None,
            u_reset_token = None, u_reset_token_expiry = None\<rparr>"

definition bob :: user where
  "bob = \<lparr>u_id = 2, u_email = ''bob@example.com'', u_password = ''pw-b'', u_name = ''Bob'',
          u_subscription = ''free'', u_subscription_expiry = Some 300, u_auth_key = None,
          u_reset_token = None, u_reset_token_expiry = None\<rparr>"

definition demo_env :: env where
  "demo_env = \<lparr>now = 17280000, db_up = True, smtp_up = True,
               random_values = (\<lambda>i. 1 / 2), shuffle = rev,
               random_digits = ''0042'', strftime_now = ''20240101_120000'',
               isoformat_date = str_int, secure_filename = (\<lambda>s. s),
               jwt_decode = (\<lambda>t. if t = ''token-a'' then Payload (Some 1)
                                  else if t = ''token-b'' then Payload (Some 2)
                                  else if t = ''token-old'' then ExpiredSignatureError
                                  else InvalidTokenError),
               jwt_encode = (\<lambda>user_id exp. ''token-'' @ str_nat user_id)\<rparr>"

definition demo_order :: payment_order where
  "demo_order = \<lparr>po_order_id = ''order_1'', po_user_id = 1, po_amount = JInt 10,
                 po_subscription_type = ''pro'', po_duration_days = 30,
                 po_status = ''INITIATED'', po_created_at = 17270000,
                 po_updated_at = None, po_payment_response = None\<rparr>"

definition demo_world :: world where
  "demo_world = \<lparr>users = [alice, bob], videos = [], payment_orders = [demo_order],
                 payments = [], files = [], outbox = []\<rparr>"

definition demo_paid :: "exn + gateway_response" where
  "demo_paid = Inr \<lparr>gw_status_code = 200, gw_json = [(''order_status'', JStr ''PAID'')]\<rparr>"

definition demo_hook :: json where
  "demo_hook = JObj [(''data'', JObj [(''order'', JObj [(''order_id'', JStr ''order_1'')])])]"

definition completed_world :: world where
  "completed_world = snd (payment_webhook demo_env demo_paid demo_hook demo_world)"

definition demo_config :: config where
  "demo_config = \<lparr>MAX_VIDEOS_PER_USER = 1, OUTPUT_BASE_FOLDER = ''new_output'',
                  IMAGE_FOLDER = ''media/images'', VOICE_FOLDER = ''media/voice'',
                  BACKGROUND_FOLDER = ''media/background'', JWT_EXPIRATION = 86400,
                  RESET_TOKEN_EXPIRY_HOURS = 1, frontend_url = ''https://app.example''\<rparr>"

definition alice_video :: video where
  "alice_video = \<lparr>v_id = 1, v_user_id = 1, v_filename = ''video_20240101_120000_0042.mp4'',
                  v_duration = 12, v_created_at = 17000000\<rparr>"

definition alice_file :: fentry where
  "alice_file = \<lparr>f_dir = ''new_output/user_1'', f_name = ''video_20240101_120000_0042.mp4'',
                 f_isfile = True, f_locked = False, f_length = 12\<rparr>"

definition video_world :: world where
  "video_world = demo_world\<lparr>videos := [alice_video], files := [alice_file]\<rparr>"

definition locked_world :: world where
  "locked_world = demo_world\<lparr>videos := [alice_video], files := [alice_file\<lparr>f_locked := True\<rparr>]\<rparr>"



definition generated_names :: "world \<Rightarrow> bool" where
  "generated_names w = list_all (\<lambda>v. is_prefix ''video_'' (v_filename v)) (videos w)"

definition deleted_reply :: reply where
  "deleted_reply = Resp (JObj [(''message'', JStr ''Video deleted successfully'')]) 200"

section \<open>Sign-up and password reset\<close>









definition generic_reset_reply :: reply where
  "generic_reset_reply =
     Resp (JObj [(''message'', JStr ''If the email exists, a reset link will be sent'')]) 200"

text \<open>\<^verbatim>\<open>forgot_password\<close>: the view has no \<^verbatim>\<open>try\<close> block around the database part.\<close>

definition forgot_password :: "config \<Rightarrow> env \<Rightarrow> json \<Rightarrow> world \<Rightarrow> reply \<times> world" where
  "forgot_password cfg e data w =
     (case json_get data ''email'' of
        Inl ex \<Rightarrow> (Uncaught ex, w)
      | Inr email \<Rightarrow>
          if \<not> truthy email then (Resp (JObj [(''error'', JStr ''Email is required'')]) 400, w)
          else if \<not> db_up e then (Uncaught AttributeError, w)
          else if \<not> sql_param_ok email then (Uncaught ProgrammingError, w)
          else
            (case find (\<lambda>u. sql_text_eq (u_email u) email) (users w) of
               None \<Rightarrow> (generic_reset_reply, w)
             | Some user \<Rightarrow>
                 (let expiry = now e + RESET_TOKEN_EXPIRY_HOURS cfg * 3600;
                      token = jwt_encode e (u_id user) expiry;
                      w1 = w\<lparr>users :=
                             map (\<lambda>u. if u_id u = u_id user
                                       then u\<lparr>u_reset_token := Some token,
                                              u_reset_token_expiry := Some expiry\<rparr>
                                       else u)
                                 (users w)\<rparr>;
                      reset_url = frontend_url cfg @ ''/reset-password?token='' @ token
                  in
                    if smtp_up e then
                      (Resp (JObj [(''message'', JStr ''Password reset link sent'')]) 200,
                       w1\<lparr>outbox := outbox w1 @
                            [\<lparr>m_to = py_str email, m_subject = ''Password Reset Request'',
                              m_body = ''Click the link to reset your password: '' @ reset_url\<rparr>]\<rparr>)
                    else
                      (Resp (JObj [(''error'',
                                    JStr (''Failed to send email: '' @ str_exn SMTPException))]) 500,
                       w1))))"


section \<open>Properties\<close>

subsection \<open>Payment confirmation\<close>

lemma find_map_same:
  assumes "\<And>x. P (f x) = P x"
  shows "find P (map f xs) = map_option f (find P xs)"
  using assms by (induction xs) auto

lemma webhook_process_completed:
  assumes "find (\<lambda>po. sql_text_eq (po_order_id po) order_id) (payment_orders w) = Some po"
      and "po_status po = ''COMPLETED''"
  shows "snd (webhook_process e payment_details order_id w) = w"
    and "db_up e \<Longrightarrow> webhook_process e payment_details order_id w = (already_processed, w)"
proof -
  from assms(1) have "sql_text_eq (po_order_id po) order_id"
    by (auto simp: find_Some_iff)
  then have "sql_param_ok order_id" by (cases order_id) auto
  with assms show "snd (webhook_process e payment_details order_id w) = w"
    and "db_up e \<Longrightarrow> webhook_process e payment_details order_id w = (already_processed, w)"
    by (auto simp: webhook_process_def)
qed

lemma webhook_process_changes:
  assumes "webhook_process e payment_details order_id w = (r, w1)" and "w1 \<noteq> w"
  shows "\<exists>po. find (\<lambda>po. sql_text_eq (po_order_id po) order_id) (payment_orders w1) = Some po
          \<and> po_status po = ''COMPLETED''"
proof -
  let ?P = "\<lambda>po. sql_text_eq (po_order_id po) order_id"
  let ?f = "\<lambda>po. if sql_text_eq (po_order_id po) order_id
                 then po\<lparr>po_status := ''COMPLETED'', po_updated_at := Some (now e),
                         po_payment_response := Some (JObj payment_details)\<rparr>
                 else po"
  from assms obtain po where f: "find ?P (payment_orders w) = Some po"
    and pw: "payment_orders w1 = map ?f (payment_orders w)"
    by (auto simp: webhook_process_def split: if_splits option.splits)
  have "find ?P (map ?f (payment_orders w)) = map_option ?f (find ?P (payment_orders w))"
    by (rule find_map_same) simp
  with f pw have "find ?P (payment_orders w1) = Some (?f po)" by simp
  moreover from f have "?P po" by (auto simp: find_Some_iff)
  ultimately show ?thesis by auto
qed

lemma payment_webhook_shape:
  "snd (payment_webhook e gw d w) = w \<or>
   (\<exists>data order_data order_id response.
      json_get_obj d ''data'' = Inr data \<and> json_get_obj data ''order'' = Inr order_data \<and>
      json_get order_data ''order_id'' = Inr order_id \<and> truthy d \<and> py_in ''data'' d = Inr True \<and>
      truthy order_id \<and>
      gw = Inr response \<and>
      payment_webhook e gw d w = webhook_process e (gw_json response) order_id w)"
  by (auto simp: payment_webhook_def Let_def split: sum.splits bool.splits if_splits)

lemma payment_webhook_reaches:
  assumes "json_get_obj d ''data'' = Inr data" "json_get_obj data ''order'' = Inr order_data"
      "json_get order_data ''order_id'' = Inr order_id" "truthy d" "py_in ''data'' d = Inr True"
      "truthy order_id"
  shows "payment_webhook e gw d w =
     (case gw of
        Inl ex \<Rightarrow> (error_reply ex 500, w)
      | Inr response \<Rightarrow>
          if gw_status_code response \<noteq> 200 then
            (Resp (JObj [(''error'', JStr ''Failed to verify order status'')]) 400, w)
          else if dict_get (gw_json response) ''order_status'' = JStr ''PAID''
          then webhook_process e (gw_json response) order_id w
          else (Resp (JObj [(''status'', JStr ''pending''),
                            (''message'', JStr (''Payment not successful for order '' @ py_str order_id)),
                            (''order_status'', dict_get (gw_json response) ''order_status'')]) 200, w))"
  using assms by (auto simp: payment_webhook_def Let_def split: sum.splits bool.splits if_splits)

text \<open>
  Claim C3. Once a delivery of the webhook has processed an order (it changed the state,
  which it does only by crediting the subscription, adding the ledger row and setting the
  order to COMPLETED), a second delivery of the same notification leaves the users, the
  ledger and the orders as they are, whatever the clock and the gateway say; and when the
  gateway again reports the order as paid, the reply is "Payment already processed".
\<close>

theorem webhook_second_delivery:
  assumes first: "payment_webhook e1 gw1 webhook_data w = (r1, w1)"
      and credited: "w1 \<noteq> w"
  shows "snd (payment_webhook e2 gw2 webhook_data w1) = w1 \<and>
         (db_up e2 \<and> gateway_paid gw2 \<longrightarrow>
            fst (payment_webhook e2 gw2 webhook_data w1) = already_processed)"
proof -
  have "snd (payment_webhook e1 gw1 webhook_data w) \<noteq> w"
    using first credited by simp
  with payment_webhook_shape [of e1 gw1 webhook_data w]
  have "\<exists>data order_data order_id response.
      json_get_obj webhook_data ''data'' = Inr data \<and>
      json_get_obj data ''order'' = Inr order_data \<and>
      json_get order_data ''order_id'' = Inr order_id \<and> truthy webhook_data \<and>
      py_in ''data'' webhook_data = Inr True \<and> truthy order_id \<and>
      gw1 = Inr response \<and>
      payment_webhook e1 gw1 webhook_data w =
        webhook_process e1 (gw_json response) order_id w"
    by simp
  then obtain data order_data order_id response where
      d: "json_get_obj webhook_data ''data'' = Inr data"
         "json_get_obj data ''order'' = Inr order_data"
         "json_get order_data ''order_id'' = Inr order_id"
         "truthy webhook_data" "py_in ''data'' webhook_data = Inr True" "truthy order_id"
    and g1: "gw1 = Inr response"
    and p0: "payment_webhook e1 gw1 webhook_data w =
             webhook_process e1 (gw_json response) order_id w"
    by blast
  from p0 first have p: "webhook_process e1 (gw_json response) order_id w = (r1, w1)"
    by simp
  from webhook_process_changes [OF p credited] obtain po where
    po: "find (\<lambda>po. sql_text_eq (po_order_id po) order_id) (payment_orders w1) = Some po"
        "po_status po = ''COMPLETED''" by blast
  note unch = webhook_process_completed [OF po]
  note second = payment_webhook_reaches [OF d, of e2 gw2 w1]
  have "snd (payment_webhook e2 gw2 webhook_data w1) = w1"
    unfolding second using unch(1) by (simp split: sum.splits)
  moreover have "fst (payment_webhook e2 gw2 webhook_data w1) = already_processed"
    if "db_up e2" "gateway_paid gw2"
  proof -
    from that(2) obtain response2 where "gw2 = Inr response2"
      "gw_status_code response2 = 200"
      "dict_get (gw_json response2) ''order_status'' = JStr ''PAID''"
      by (auto simp: gateway_paid_def split: sum.splits)
    then show ?thesis
      unfolding second using unch(2) [OF that(1)] by simp
  qed
  ultimately show ?thesis by blast
qed

lemma demo_hook_reaches:
  "payment_webhook demo_env demo_paid demo_hook w =
   webhook_process demo_env [(''order_status'', JStr ''PAID'')] (JStr ''order_1'') w"
  by (simp add: payment_webhook_def demo_hook_def demo_paid_def dict_get_def
      dict_get_default_def)

lemma demo_first_payments:
  "length (payments (snd (payment_webhook demo_env demo_paid demo_hook demo_world))) = 1"
  unfolding demo_hook_reaches
  by (simp add: webhook_process_def demo_world_def demo_order_def demo_env_def)

theorem webhook_second_delivery_witness:
  "snd (payment_webhook demo_env demo_paid demo_hook demo_world) \<noteq> demo_world \<and>
   payment_webhook demo_env demo_paid demo_hook
     (snd (payment_webhook demo_env demo_paid demo_hook demo_world)) =
   (already_processed, snd (payment_webhook demo_env demo_paid demo_hook demo_world))"
proof -
  let ?w1 = "snd (payment_webhook demo_env demo_paid demo_hook demo_world)"
  have first: "payment_webhook demo_env demo_paid demo_hook demo_world =
               (fst (payment_webhook demo_env demo_paid demo_hook demo_world), ?w1)"
    by simp
  have changed: "?w1 \<noteq> demo_world"
    using demo_first_payments by (auto simp: demo_world_def)
  have up: "db_up demo_env" by (simp add: demo_env_def)
  have paid: "gateway_paid demo_paid"
    by (simp add: gateway_paid_def demo_paid_def dict_get_def)
  from webhook_second_delivery [OF first changed, of demo_env demo_paid] up paid changed
  show ?thesis by (simp add: prod_eq_iff)
qed

lemma completed_world_order:
  "map po_status (payment_orders completed_world) = [''COMPLETED''] \<and>
   length (payments completed_world) = 1 \<and>
   map u_subscription_expiry (users completed_world) = [Some 230, Some 300]"
  unfolding completed_world_def demo_hook_reaches
  by (simp add: webhook_process_def demo_world_def
      demo_order_def demo_env_def alice_def bob_def date_of_def plus_days_def)

text \<open>
  Claim C2. The polling endpoint looks the order up by id and owner but never reads its
  status: on an order that the webhook has already completed, a later poll (here 100 days
  later) adds a second ledger row and moves the subscription expiry again.
\<close>

theorem payment_success_credits_completed_order:
  "map po_status (payment_orders completed_world) = [''COMPLETED''] \<and>
   length (payments completed_world) = 1 \<and>
   length (payments (snd (payment_success_endpoint (demo_env\<lparr>now := 25920000\<rparr>) demo_paid
                            (Some ''Bearer token-a'') (Some ''order_1'') completed_world))) = 2 \<and>
   map u_subscription_expiry
     (users (snd (payment_success_endpoint (demo_env\<lparr>now := 25920000\<rparr>) demo_paid
                    (Some ''Bearer token-a'') (Some ''order_1'') completed_world))) =
   [Some 330, Some 300]"
  unfolding completed_world_def demo_hook_reaches
  by (simp add: webhook_process_def demo_world_def
      demo_order_def demo_env_def alice_def bob_def date_of_def plus_days_def
      payment_success_endpoint_def decorated_def token_required_def authorization_token_def
      py_index_def payment_success_def demo_paid_def dict_get_def
      update_subscription_status_def save_payment_record_def Let_def)

lemma user_folder_1: "get_user_output_folder demo_config (Suc 0) = ''new_output/user_1''"
  by (simp add: get_user_output_folder_def demo_config_def path_join_def digit_char_def)

lemma user_folder_2: "get_user_output_folder demo_config 2 = ''new_output/user_2''"
  by (simp add: get_user_output_folder_def demo_config_def path_join_def digit_char_def)

subsection \<open>Authentication\<close>

lemma token_required_no_header: "token_required e w None = Inl token_missing"
  by (simp add: token_required_def authorization_token_def)

lemma token_required_bad_token:
  assumes "authorization_token authorization = Inr (Some token)"
      and "jwt_decode e token = InvalidTokenError \<or> jwt_decode e token = ExpiredSignatureError"
  shows "token_required e w authorization = Inl (if token = [] then token_missing else invalid_token)"
  using assms by (auto simp: token_required_def)

lemma rejections_are_401: "status_code token_missing = 401" "status_code invalid_token = 401"
  by (simp_all add: token_missing_def invalid_token_def)

lemma subscription_required_lapsed:
  assumes "authorization_token authorization = Inr (Some token)" "token \<noteq> []"
      and "jwt_decode e token = Payload (Some user_id)" "db_up e"
      and "find (\<lambda>u. u_id u = user_id) (users w) = Some current_user"
      and "u_subscription_expiry current_user = Some expiry_date"
      and "expiry_date < date_of (now e)"
  shows "subscription_required e w authorization = Inl (subscription_expired_reply e expiry_date)"
    and "status_code (subscription_expired_reply e expiry_date) = 403"
  using assms by (auto simp: subscription_required_def subscription_expired_reply_def)

text \<open>
  Claim C6. No header, a token the JWT library refuses and an expired token are answered
  with 401, and a lapsed subscription with 403 (the lemmas above). But the piece after the
  first space is taken with an index outside the \<^verbatim>\<open>try\<close> block: a header without a
  space (the scheme alone, or a token sent without a scheme) raises \<open>IndexError\<close>, which
  nothing catches, and the request ends in a 500 instead of a 401. Both decorators share
  the defect.
\<close>

theorem token_required_header_without_space:
  "token_required demo_env demo_world (Some ''Bearer'') = Inl (Uncaught IndexError) \<and>
   status_code (Uncaught IndexError) = 500 \<and>
   subscription_required demo_env demo_world (Some ''token-a'') = Inl (Uncaught IndexError)"
  by (simp add: token_required_def subscription_required_def authorization_token_def py_index_def)

subsection \<open>Clearing the cache\<close>

text \<open>
  Claim C9. Whenever the database is reached, \<^verbatim>\<open>clear_cache\<close> deletes every video row of
  the user, whether or not the folder could be cleared; in particular, when the reply is
  the 500 "Failed to clear cache" (the folder was not cleared), the rows are gone all the
  same.
\<close>

theorem clear_cache_rows_deleted:
  "(db_up e \<longrightarrow>
      videos (snd (clear_cache_route cfg e current_user w)) =
      filter (\<lambda>v. v_user_id v \<noteq> u_id current_user) (videos w)) \<and>
   (fst (clear_cache_route cfg e current_user w) =
      Resp (JObj [(''error'', JStr ''Failed to clear cache'')]) 500 \<longrightarrow>
      \<not> fst (clear_folder (get_user_output_folder cfg (u_id current_user)) (files w)) \<and>
      videos (snd (clear_cache_route cfg e current_user w)) =
      filter (\<lambda>v. v_user_id v \<noteq> u_id current_user) (videos w))"
  by (auto simp: clear_cache_route_def Let_def error_reply_def split: prod.splits)

theorem clear_cache_rows_deleted_witness:
  "db_up demo_env \<and>
   clear_cache_route demo_config demo_env alice locked_world =
     (Resp (JObj [(''error'', JStr ''Failed to clear cache'')]) 500,
      locked_world\<lparr>videos := []\<rparr>)"
proof -
  have up: "db_up demo_env" by (simp add: demo_env_def)
  have r: "fst (clear_cache_route demo_config demo_env alice locked_world) =
           Resp (JObj [(''error'', JStr ''Failed to clear cache'')]) 500"
    and f: "files (snd (clear_cache_route demo_config demo_env alice locked_world)) = files locked_world"
    and o: "users (snd (clear_cache_route demo_config demo_env alice locked_world)) = users locked_world"
       "payment_orders (snd (clear_cache_route demo_config demo_env alice locked_world)) = payment_orders locked_world"
       "payments (snd (clear_cache_route demo_config demo_env alice locked_world)) = payments locked_world"
       "outbox (snd (clear_cache_route demo_config demo_env alice locked_world)) = outbox locked_world"
    by (simp_all add: clear_cache_route_def Let_def user_folder_1 alice_def locked_world_def
        demo_world_def alice_file_def demo_env_def)
  from clear_cache_rows_deleted [of demo_env demo_config alice locked_world] up r
  have v: "videos (snd (clear_cache_route demo_config demo_env alice locked_world)) = []"
    by (simp add: locked_world_def alice_video_def alice_def)
  show ?thesis using up r f o v by (simp add: prod_eq_iff world.equality)
qed

subsection \<open>The video limit\<close>




lemma bob_authenticated:
  "token_required demo_env video_world (Some ''Bearer token-b'') = Inr bob"
  by (simp add: token_required_def authorization_token_def py_index_def demo_env_def
      video_world_def demo_world_def alice_def bob_def)


subsection \<open>Access to another user's video\<close>




subsection \<open>Deleting by file name\<close>

text \<open>Every stored file name was made by \<^verbatim>\<open>generate_unique_filename\<close>.\<close>

lemma str_nat_digit: "str_nat n \<noteq> [] \<and> hd (str_nat n) \<in> set ''0123456789''"
proof (induction n rule: str_nat.induct)
  case (1 n)
  show ?case
  proof (cases "n < 10")
    case True
    then have "''0123456789'' ! n \<in> set ''0123456789''"
      by (intro nth_mem) simp
    with True show ?thesis
      by (subst (1 2) str_nat.simps) (simp add: digit_char_def)
  next
    case False
    with 1 show ?thesis
      by (subst (1 2) str_nat.simps) simp
  qed
qed

lemma generated_name_not_numeric: "is_prefix ''video_'' s \<Longrightarrow> s \<noteq> str_nat n"
proof
  assume p: "is_prefix ''video_'' s" and e: "s = str_nat n"
  from p have "hd s = CHR ''v''" by (cases s) auto
  with e str_nat_digit [of n] show False by auto
qed

lemma generate_unique_filename_prefix: "is_prefix ''video_'' (generate_unique_filename e)"
  by (simp add: generate_unique_filename_def)

lemma render_video_names:
  "render_video cfg e req u a b tt t ps vf bf w = Some (r, w') \<Longrightarrow> generated_names w \<Longrightarrow>
   generated_names w'"
  by (auto simp: render_video_def generated_names_def save_video_record_def Let_def
      generate_unique_filename_prefix split: option.splits list.splits if_splits)

lemma generate_video_names:
  "generate_video cfg e req u w = Some (r, w') \<Longrightarrow> generated_names w \<Longrightarrow> generated_names w'"
  by (auto simp: generate_video_def Let_def generated_names_def
      split: sum.splits option.splits if_splits dest!: render_video_names)

text \<open>
  Claim C8. \<^verbatim>\<open>delete_video\<close> compares the supplied \<open>videoId\<close> with the file name column:
  a request with a \<open>videoId\<close> behaves as the request with that value as \<open>filename\<close>, a
  successful deletion removes exactly the rows whose file name is the \<open>videoId\<close>, and a
  numeric id (a JSON number, or its decimal digits as a string) matches no row of a table
  whose file names were all generated: the reply is the 404 and nothing changes.
\<close>

theorem video_id_is_filename:
  assumes "truthy video_id" "db_up e" "generated_names w"
  shows "delete_video cfg e (JObj [(''videoId'', video_id), (''filename'', filename)])
           current_user w =
         delete_video cfg e (JObj [(''filename'', video_id)]) current_user w \<and>
         (fst (delete_video cfg e (JObj [(''videoId'', video_id), (''filename'', filename)])
                 current_user w) = deleted_reply \<longrightarrow>
          videos (snd (delete_video cfg e (JObj [(''videoId'', video_id), (''filename'', filename)])
                         current_user w)) =
          filter (\<lambda>v. \<not> sql_text_eq (v_filename v) video_id) (videos w)) \<and>
         (video_id = JInt n \<or> video_id = JStr (str_nat m) \<longrightarrow>
          delete_video cfg e (JObj [(''videoId'', video_id), (''filename'', filename)])
            current_user w =
          (Resp (JObj [(''error'', JStr ''Video not found or unauthorized'')]) 404, w))"
proof -
  let ?d = "delete_video cfg e (JObj [(''videoId'', video_id), (''filename'', filename)])
              current_user w"
  have same: "?d = delete_video cfg e (JObj [(''filename'', video_id)]) current_user w"
    using assms(1) by (simp add: delete_video_def dict_get_def Let_def)
  have del: "videos (snd ?d) = filter (\<lambda>v. \<not> sql_text_eq (v_filename v) video_id) (videos w)"
    if "fst ?d = deleted_reply"
    using that assms(1)
    by (auto simp: delete_video_def dict_get_def Let_def deleted_reply_def error_reply_def
        split: if_splits option.splits)
  have num: "?d = (Resp (JObj [(''error'', JStr ''Video not found or unauthorized'')]) 404, w)"
    if "video_id = JInt n \<or> video_id = JStr (str_nat m)"
  proof -
    have "\<not> sql_text_eq (v_filename v) video_id" if "v \<in> set (videos w)" for v
      using that \<open>video_id = JInt n \<or> video_id = JStr (str_nat m)\<close> assms(3)
        generated_name_not_numeric [of "v_filename v" m]
      by (auto simp: generated_names_def list_all_iff)
    then have "find (\<lambda>v. sql_text_eq (v_filename v) video_id \<and> v_user_id v = u_id current_user)
                 (videos w) = None"
      by (auto simp: find_None_iff)
    moreover have "sql_param_ok video_id" using that by auto
    ultimately show ?thesis
      using assms(1,2) by (simp add: delete_video_def dict_get_def Let_def)
  qed
  from same del num show ?thesis by blast
qed

lemma video_world_names: "generated_names video_world"
  by (simp add: generated_names_def video_world_def alice_video_def)

theorem video_id_is_filename_witness:
  "delete_video demo_config demo_env (JObj [(''videoId'', JInt 1), (''filename'', JNull)])
     alice video_world =
   (Resp (JObj [(''error'', JStr ''Video not found or unauthorized'')]) 404, video_world) \<and>
   delete_video demo_config demo_env (JObj [(''videoId'', JStr ''1''), (''filename'', JNull)])
     alice video_world =
   (Resp (JObj [(''error'', JStr ''Video not found or unauthorized'')]) 404, video_world) \<and>
   delete_video demo_config demo_env
     (JObj [(''videoId'', JStr ''video_20240101_120000_0042.mp4''), (''filename'', JNull)])
     alice video_world =
   (deleted_reply, video_world\<lparr>videos := [], files := []\<rparr>)"
proof -
  have up: "db_up demo_env" by (simp add: demo_env_def)
  have s1: "str_nat 1 = ''1''" by (simp add: digit_char_def)
  have a: "delete_video demo_config demo_env (JObj [(''videoId'', JInt 1), (''filename'', JNull)])
     alice video_world =
   (Resp (JObj [(''error'', JStr ''Video not found or unauthorized'')]) 404, video_world)"
    using video_id_is_filename [of "JInt 1" demo_env video_world demo_config JNull alice 1 0,
        OF _ up video_world_names, THEN conjunct2, THEN conjunct2] by simp
  have b: "delete_video demo_config demo_env (JObj [(''videoId'', JStr ''1''), (''filename'', JNull)])
     alice video_world =
   (Resp (JObj [(''error'', JStr ''Video not found or unauthorized'')]) 404, video_world)"
    using video_id_is_filename [of "JStr ''1''" demo_env video_world demo_config JNull alice 0 1,
        OF _ up video_world_names, THEN conjunct2, THEN conjunct2] s1 by simp
  have c: "delete_video demo_config demo_env
     (JObj [(''videoId'', JStr ''video_20240101_120000_0042.mp4''), (''filename'', JNull)])
     alice video_world =
   (deleted_reply, video_world\<lparr>videos := [], files := []\<rparr>)"
    by (simp add: delete_video_def dict_get_def Let_def deleted_reply_def demo_env_def
        video_world_def demo_world_def alice_video_def alice_file_def alice_def
        get_user_output_folder_def demo_config_def path_join_def digit_char_def)
  from a b c show ?thesis by simp
qed

subsection \<open>Sign-up and password reset\<close>











text \<open>
  For a registered address the status is 200 as well when the relay accepts the mail, and
  500 when it does not.
\<close>

lemma forgot_password_known_email:
  assumes "json_get data ''email'' = Inr email" "truthy email" "sql_param_ok email" "db_up e"
      and "find (\<lambda>u. sql_text_eq (u_email u) email) (users w) = Some user"
  shows "status_code (fst (forgot_password cfg e data w)) = (if smtp_up e then 200 else 500)"
  using assms by (simp add: forgot_password_def Let_def)

subsection \<open>Slide durations\<close>










end
